theory Spec2Isabelle
  imports Complex_Main
begin

section \<open>Values and tables\<close>

text \<open>
  The program computes on double-precision numbers held in pandas tables. A cell is
  modelled as a real number or one of the three special values; the operations on
  cells do not round (an indicator library that rounds is among the example data).
  \<open>NaN\<close> is what pandas calls a missing value.
\<close>

datatype cell = Num real | PosInf | NegInf | NaN

text \<open>The comparison \<open>a > b\<close> on cells: every comparison with \<open>NaN\<close> is false.\<close>

fun cell_gt :: "cell \<Rightarrow> cell \<Rightarrow> bool" where
  "cell_gt (Num a) (Num b) = (a > b)"
| "cell_gt NaN _ = False"
| "cell_gt _ NaN = False"
| "cell_gt PosInf PosInf = False"
| "cell_gt PosInf _ = True"
| "cell_gt _ PosInf = False"
| "cell_gt NegInf _ = False"
| "cell_gt _ NegInf = True"

text \<open>Subtraction and division as numpy does them elementwise (signed zeros aside):
  a finite value divided by zero is an infinity, zero by zero is \<open>NaN\<close>.\<close>

fun cell_sub :: "cell \<Rightarrow> cell \<Rightarrow> cell" where
  "cell_sub (Num a) (Num b) = Num (a - b)"
| "cell_sub NaN _ = NaN"
| "cell_sub _ NaN = NaN"
| "cell_sub PosInf PosInf = NaN"
| "cell_sub NegInf NegInf = NaN"
| "cell_sub PosInf _ = PosInf"
| "cell_sub NegInf _ = NegInf"
| "cell_sub _ PosInf = NegInf"
| "cell_sub _ NegInf = PosInf"

fun cell_div :: "cell \<Rightarrow> cell \<Rightarrow> cell" where
  "cell_div (Num a) (Num b) =
     (if b = 0 then (if a = 0 then NaN else if a > 0 then PosInf else NegInf)
      else Num (a / b))"
| "cell_div NaN _ = NaN"
| "cell_div _ NaN = NaN"
| "cell_div (Num a) _ = Num 0"
| "cell_div PosInf (Num b) = (if b \<ge> 0 then PosInf else NegInf)"
| "cell_div NegInf (Num b) = (if b \<ge> 0 then NegInf else PosInf)"
| "cell_div _ _ = NaN"

text \<open>
  A pandas DataFrame: the ordered column names and the rows, each row carrying its
  index label (the candle's timestamp) and one cell per column. Column names are taken
  to be distinct, as in every table the program builds.
\<close>

record DataFrame =
  columns :: "string list"
  records :: "(nat \<times> cell list) list"

definition exclude_cols :: "string list" where
  "exclude_cols = [''open'', ''high'', ''low'', ''close'', ''volume'']"

text \<open>\<open>[col for col in data.columns if col not in exclude_cols]\<close>\<close>

definition feature_cols_of :: "string list \<Rightarrow> string list" where
  "feature_cols_of cs = filter (\<lambda>col. col \<notin> set exclude_cols) cs"

text \<open>\<open>row[feature_cols]\<close>: the cells of one row under the selected columns.\<close>

definition select_features :: "string list \<Rightarrow> cell list \<Rightarrow> cell list" where
  "select_features cs r = map snd (filter (\<lambda>(col, v). col \<notin> set exclude_cols) (zip cs r))"

section \<open>The persisted objects: scaler and classifier\<close>

text \<open>
  The scaler is scikit-learn's \<open>StandardScaler\<close>. A fitted scaler holds the mean and
  the scale of every feature (\<open>mean_\<close>, \<open>scale_\<close>) and, when it was fitted on a
  table with named columns, those names (\<open>feature_names_in_\<close>). \<open>transform\<close> raises
  (here: \<open>None\<close>) on an unfitted scaler, on a different number of features, on an
  infinite value and, when names were recorded, on names that differ from the recorded
  ones; otherwise it standardises position by position.
\<close>

datatype StandardScaler =
  Unfitted
| Fitted (feature_names_in: "string list option") (mean_params: "real list") (scale_params: "real list")

fun zscore :: "cell \<Rightarrow> real \<Rightarrow> real \<Rightarrow> cell" where
  "zscore (Num x) m s = Num ((x - m) / s)"
| "zscore c m s = c"

fun transform :: "StandardScaler \<Rightarrow> string list \<Rightarrow> cell list \<Rightarrow> cell list option" where
  "transform Unfitted names x = None"
| "transform (Fitted fnames means scales) names x =
     (if (case fnames of None \<Rightarrow> False | Some ns \<Rightarrow> ns \<noteq> names) then None
      else if length x \<noteq> length means then None
      else if PosInf \<in> set x \<or> NegInf \<in> set x then None
      else Some (map (\<lambda>(c, m, s). zscore c m s) (zip x (zip means scales))))"

text \<open>
  The classifier is whatever object the artifact holds. \<open>predict\<close> gives the class of
  one scaled row or raises (\<open>None\<close>); \<open>predict_proba\<close> is absent (\<open>None\<close>) when the
  object has no such attribute, and otherwise gives the class probabilities or raises.
\<close>

record classifier =
  predict :: "cell list \<Rightarrow> int option"
  predict_proba :: "(cell list \<Rightarrow> real list option) option"

section \<open>MLModelTrainer: the loaded artifact\<close>

record MLModelTrainer =
  model :: "classifier option"
  scaler :: "StandardScaler option"
  feature_columns :: "string list option"

text \<open>\<open>MLModelTrainer.__init__\<close>\<close>

definition new_trainer :: MLModelTrainer where
  "new_trainer = \<lparr>model = None, scaler = None, feature_columns = None\<rparr>"

text \<open>
  The artifact store: under one name, a pickled classifier, a pickled scaler and a text
  file with one feature name per line. Each of the three files may be missing.
\<close>

record artifact_store =
  model_pkl :: "string \<rightharpoonup> classifier"
  scaler_pkl :: "string \<rightharpoonup> StandardScaler"
  features_txt :: "string \<rightharpoonup> string"

text \<open>\<open>str.strip()\<close> and \<open>str.split('\n')\<close> on the features file.\<close>

definition isspace :: "char \<Rightarrow> bool" where
  "isspace c = (c \<in> set [CHR '' '', CHR 0x09, CHR 0x0A, CHR 0x0B, CHR 0x0C, CHR 0x0D,
                          CHR 0x1C, CHR 0x1D, CHR 0x1E, CHR 0x1F])"

definition strip :: "string \<Rightarrow> string" where
  "strip s = rev (dropWhile isspace (rev (dropWhile isspace s)))"

fun split_nl :: "string \<Rightarrow> string list" where
  "split_nl [] = [[]]"
| "split_nl (c # cs) =
     (if c = CHR 0x0A then [] # split_nl cs
      else (case split_nl cs of [] \<Rightarrow> [[c]] | l # ls \<Rightarrow> (c # l) # ls))"

text \<open>
  \<open>MLModelTrainer.load_model\<close>: the three loads run in order inside one \<open>try\<close>; the
  first missing file ends the call with \<open>False\<close>, and the fields assigned before it keep
  their new values.
\<close>

definition trainer_load_model ::
    "artifact_store \<Rightarrow> string \<Rightarrow> MLModelTrainer \<Rightarrow> bool \<times> MLModelTrainer" where
  "trainer_load_model st filename t =
     (case model_pkl st filename of
        None \<Rightarrow> (False, t)
      | Some m \<Rightarrow>
          (let t1 = t\<lparr>model := Some m\<rparr> in
           case scaler_pkl st filename of
             None \<Rightarrow> (False, t1)
           | Some s \<Rightarrow>
               (let t2 = t1\<lparr>scaler := Some s\<rparr> in
                case features_txt st filename of
                  None \<Rightarrow> (False, t2)
                | Some txt \<Rightarrow> (True, t2\<lparr>feature_columns := Some (split_nl (strip txt))\<rparr>))))"

section \<open>PredictionEngine\<close>

text \<open>
  The engine owns one \<open>MLModelTrainer\<close> object, created in \<open>__init__\<close>, and a
  dictionary from instrument to trainer object. Objects live in a store and the
  dictionary holds references, so that an assignment through one reference is seen
  through every other.
\<close>

type_synonym ref = nat

record PredictionEngine =
  objects :: "ref \<rightharpoonup> MLModelTrainer"
  trainer :: ref
  models :: "string \<rightharpoonup> ref"

text \<open>\<open>PredictionEngine.__init__\<close>\<close>

definition new_engine :: PredictionEngine where
  "new_engine = \<lparr>objects = [0 \<mapsto> new_trainer], trainer = 0, models = Map.empty\<rparr>"

text \<open>
  \<open>PredictionEngine.load_model\<close>: \<open>self.trainer.load_model(filename)\<close> updates the
  engine's trainer object in place (its result is not looked at), then
  \<open>self.models[instrument] = self.trainer\<close> stores a reference to that same object.
\<close>

definition load_model :: "artifact_store \<Rightarrow> string \<Rightarrow> string \<Rightarrow> PredictionEngine
    \<Rightarrow> bool \<times> PredictionEngine" where
  "load_model st instrument filename e =
     (case objects e (trainer e) of
        None \<Rightarrow> (False, e)
      | Some t \<Rightarrow>
          (let t' = snd (trainer_load_model st filename t) in
           (True, e\<lparr>objects := (objects e)(trainer e \<mapsto> t'),
                    models := (models e)(instrument \<mapsto> trainer e)\<rparr>)))"

datatype signal = BULL | BEAR

record prediction =
  instrument :: string
  signal :: signal
  prediction :: int
  confidence :: real
  alert_triggered :: bool
  timestamp :: nat
  features_used :: "string list"

text \<open>The confidence of a prediction: the largest class probability, or 0.5 when the
  classifier has no \<open>predict_proba\<close>. \<open>max\<close> of an empty sequence raises.\<close>

definition confidence_of :: "classifier \<Rightarrow> cell list \<Rightarrow> real option" where
  "confidence_of m x =
     (case predict_proba m of
        None \<Rightarrow> Some (1/2)
      | Some pp \<Rightarrow>
          (case pp x of
             None \<Rightarrow> None
           | Some probabilities \<Rightarrow>
               (if probabilities = [] then None else Some (Max (set probabilities)))))"

text \<open>
  \<open>PredictionEngine.predict_next_day\<close>. Every exception inside is caught and turned
  into \<open>None\<close>: no trainer bound, an empty table (\<open>iloc[[-1]]\<close>), a missing scaler or
  classifier, a scaler or classifier that raises.
\<close>

definition predict_next_day ::
    "PredictionEngine \<Rightarrow> DataFrame \<Rightarrow> string \<Rightarrow> real \<Rightarrow> prediction option" where
  "predict_next_day e data inst confidence_threshold =
     (case models e inst of
        None \<Rightarrow> None
      | Some r \<Rightarrow>
     (case objects e r of
        None \<Rightarrow> None
      | Some tr \<Rightarrow>
     (if records data = [] then None
      else
        (let last_record = last (records data);
             feature_cols = feature_cols_of (columns data);
             X = select_features (columns data) (snd last_record)
         in
     (case scaler tr of
        None \<Rightarrow> None
      | Some sc \<Rightarrow>
     (case transform sc feature_cols X of
        None \<Rightarrow> None
      | Some X_scaled \<Rightarrow>
     (case model tr of
        None \<Rightarrow> None
      | Some m \<Rightarrow>
     (case predict m X_scaled of
        None \<Rightarrow> None
      | Some p \<Rightarrow>
     (case confidence_of m X_scaled of
        None \<Rightarrow> None
      | Some c \<Rightarrow>
          Some \<lparr>instrument = inst,
                signal = (if p = 1 then BULL else BEAR),
                prediction = p,
                confidence = c,
                alert_triggered = (c \<ge> confidence_threshold),
                timestamp = fst last_record,
                features_used = feature_cols\<rparr>)))))))))"

text \<open>
  \<open>PredictionEngine.predict_batch\<close>: the loop over the dictionary's items, in
  insertion order, appending every result that is not \<open>None\<close>.
\<close>

fun predict_batch_loop ::
    "PredictionEngine \<Rightarrow> real \<Rightarrow> (string \<times> DataFrame) list \<Rightarrow> prediction list
     \<Rightarrow> prediction list" where
  "predict_batch_loop e thr [] predictions = predictions"
| "predict_batch_loop e thr ((inst, data) # rest) predictions =
     (case predict_next_day e data inst thr of
        None \<Rightarrow> predict_batch_loop e thr rest predictions
      | Some result \<Rightarrow> predict_batch_loop e thr rest (predictions @ [result]))"

definition predict_batch ::
    "PredictionEngine \<Rightarrow> (string \<times> DataFrame) list \<Rightarrow> real \<Rightarrow> prediction list" where
  "predict_batch e data_dict thr = predict_batch_loop e thr data_dict []"

section \<open>MLModelTrainer: labels and data preparation\<close>

text \<open>\<open>data['close']\<close>: the cells of a named column, or \<open>None\<close> for the KeyError.\<close>

fun find_col :: "string list \<Rightarrow> string \<Rightarrow> nat option" where
  "find_col [] name = None"
| "find_col (c # cs) name = (if c = name then Some 0 else map_option Suc (find_col cs name))"

definition get_column :: "DataFrame \<Rightarrow> string \<Rightarrow> cell list option" where
  "get_column data name =
     (case find_col (columns data) name of
        None \<Rightarrow> None
      | Some k \<Rightarrow> Some (map (\<lambda>(ts, r). r ! k) (records data)))"

text \<open>
  \<open>MLModelTrainer.create_labels\<close>. The loop body compares each close with the next
  one: 1 (Bull) when the next close is greater, 0 (Bear) otherwise.
\<close>

fun labels_of :: "cell list \<Rightarrow> nat list" where
  "labels_of (a # b # rest) = (if cell_gt b a then 1 else 0) # labels_of (b # rest)"
| "labels_of _ = []"

text \<open>
  With fewer than two rows \<open>range(len(data) - 1)\<close> is empty and the close column is
  never read; otherwise a missing close column raises inside the \<open>try\<close> and the method
  returns \<open>None\<close>.
\<close>

definition create_labels :: "DataFrame \<Rightarrow> nat list option" where
  "create_labels data =
     (if length (records data) \<le> 1 then Some []
      else (case get_column data ''close'' of
              None \<Rightarrow> None
            | Some close \<Rightarrow> Some (labels_of close)))"

text \<open>\<open>X = data[feature_cols].dropna()\<close>: the feature cells of every row, without the
  rows that hold a \<open>NaN\<close>.\<close>

definition dropna_rows :: "(nat \<times> cell list) list \<Rightarrow> (nat \<times> cell list) list" where
  "dropna_rows rs = filter (\<lambda>(ts, r). NaN \<notin> set r) rs"

definition feature_rows :: "DataFrame \<Rightarrow> (nat \<times> cell list) list" where
  "feature_rows data =
     dropna_rows (map (\<lambda>(ts, r). (ts, select_features (columns data) r)) (records data))"

text \<open>
  The alignment of \<open>X\<close> and \<open>y\<close>:
  \<^verbatim>\<open>if len(X) > len(y): X = X[:-1]\<close>, then \<^verbatim>\<open>if len(y) > len(X): y = y[:len(X)]\<close>.
\<close>

definition align :: "'a list \<Rightarrow> 'b list \<Rightarrow> 'a list \<times> 'b list" where
  "align X y =
     (let X1 = (if length X > length y then butlast X else X);
          y1 = (if length y > length X1 then take (length X1) y else y)
      in (X1, y1))"

text \<open>
  \<open>StandardScaler.fit\<close> on a table with named columns: per column the mean and the
  population standard deviation, a zero deviation being replaced by 1. It raises on a
  table with no row or no column and on a value that is not finite (\<open>prepare_data\<close>
  calls it after \<open>dropna\<close>, so a \<open>NaN\<close> cannot reach it).
\<close>

fun num_of :: "cell \<Rightarrow> real option" where
  "num_of (Num x) = Some x"
| "num_of _ = None"

definition mean :: "real list \<Rightarrow> real" where
  "mean xs = sum_list xs / real (length xs)"

definition variance :: "real list \<Rightarrow> real" where
  "variance xs = sum_list (map (\<lambda>x. (x - mean xs)\<^sup>2) xs) / real (length xs)"

definition scale_of :: "real list \<Rightarrow> real" where
  "scale_of xs = (if variance xs = 0 then 1 else sqrt (variance xs))"

definition fit :: "string list \<Rightarrow> cell list list \<Rightarrow> StandardScaler option" where
  "fit names X =
     (if X = [] \<or> names = [] then None
      else (case those (map (\<lambda>r. those (map num_of r)) X) of
              None \<Rightarrow> None
            | Some rows \<Rightarrow>
                (let cols = map (\<lambda>j. map (\<lambda>r. r ! j) rows) [0..<length names]
                 in Some (Fitted (Some names) (map mean cols) (map scale_of cols)))))"

text \<open>
  \<open>train_test_split(X_scaled, y, test_size=..., random_state=42, stratify=y)\<close> is
  library code: it is a parameter of the model, a function from the labels to the row
  positions of the training part and of the test part, or \<open>None\<close> when it raises.
\<close>

type_synonym splitter = "nat list \<Rightarrow> (nat list \<times> nat list) option"

record prepared =
  X_train :: "cell list list"
  X_test :: "cell list list"
  y_train :: "nat list"
  y_test :: "nat list"

text \<open>
  \<open>MLModelTrainer.prepare_data\<close>. The trainer's fields are assigned on the way, so
  the trainer is returned with the result; any exception gives the result \<open>None\<close> and
  leaves the assignments made so far.
\<close>

definition prepare_data ::
    "splitter \<Rightarrow> DataFrame \<Rightarrow> MLModelTrainer \<Rightarrow> prepared option \<times> MLModelTrainer" where
  "prepare_data split data t =
     (let feature_cols = feature_cols_of (columns data);
          t1 = t\<lparr>feature_columns := Some feature_cols\<rparr>;
          X = feature_rows data
      in
      (case create_labels data of
         None \<Rightarrow> (None, t1)
       | Some y \<Rightarrow>
      (case align X y of (X1, y1) \<Rightarrow>
      (let t2 = t1\<lparr>scaler := Some Unfitted\<rparr> in
      (case fit feature_cols (map snd X1) of
         None \<Rightarrow> (None, t2)
       | Some sc \<Rightarrow>
      (let t3 = t2\<lparr>scaler := Some sc\<rparr> in
      (case those (map (\<lambda>(ts, r). transform sc feature_cols r) X1) of
         None \<Rightarrow> (None, t3)
       | Some X_scaled \<Rightarrow>
      (case split y1 of
         None \<Rightarrow> (None, t3)
       | Some (train, test) \<Rightarrow>
           (Some \<lparr>X_train = map (\<lambda>i. X_scaled ! i) train,
                  X_test = map (\<lambda>i. X_scaled ! i) test,
                  y_train = map (\<lambda>i. y1 ! i) train,
                  y_test = map (\<lambda>i. y1 ! i) test\<rparr>, t3)))))))))"

section \<open>TechnicalAnalyzer\<close>

text \<open>
  The analyzer's input is the candle table of the data collector: per row a timestamp and
  the five finite values open (written \<open>open'\<close>), high, low, close, volume.
\<close>

record candle =
  time :: nat
  open' :: real
  high :: real
  low :: real
  close :: real
  volume :: real

text \<open>
  The indicator functions of TA-Lib are library code and parameters of the model. Each
  takes the close prices and its periods and gives one output value per input value
  (\<open>NaN\<close> while warming up), or raises (\<open>None\<close>).
\<close>

record talib =
  SMA :: "real list \<Rightarrow> nat \<Rightarrow> cell list option"
  RSI :: "real list \<Rightarrow> nat \<Rightarrow> cell list option"
  MACD :: "real list \<Rightarrow> nat \<Rightarrow> nat \<Rightarrow> nat \<Rightarrow> (cell list \<times> cell list \<times> cell list) option"
  BBANDS :: "real list \<Rightarrow> nat \<Rightarrow> real \<Rightarrow> real \<Rightarrow> (cell list \<times> cell list \<times> cell list) option"

text \<open>
  A pandas Series or DataFrame built from an array over \<open>data.index\<close> raises when the
  lengths differ; inside the \<open>try\<close> of each helper that gives \<open>None\<close>.
\<close>

definition series :: "candle list \<Rightarrow> cell list \<Rightarrow> cell list option" where
  "series data xs = (if length xs = length data then Some xs else None)"

text \<open>\<open>calculate_rsi\<close>\<close>

definition calculate_rsi :: "talib \<Rightarrow> candle list \<Rightarrow> nat \<Rightarrow> cell list option" where
  "calculate_rsi ta data period =
     (if length data < period then None
      else (case RSI ta (map close data) period of
              None \<Rightarrow> None
            | Some rsi \<Rightarrow> series data rsi))"

text \<open>\<open>calculate_macd\<close>\<close>

definition calculate_macd ::
    "talib \<Rightarrow> candle list \<Rightarrow> nat \<Rightarrow> nat \<Rightarrow> nat \<Rightarrow> (cell list \<times> cell list \<times> cell list) option" where
  "calculate_macd ta data fast slow sig =
     (if length data < slow then None
      else (case MACD ta (map close data) fast slow sig of
              None \<Rightarrow> None
            | Some (macd, signal_line, histogram) \<Rightarrow>
                (case (series data macd, series data signal_line, series data histogram) of
                   (Some m, Some s, Some h) \<Rightarrow> Some (m, s, h)
                 | _ \<Rightarrow> None)))"

text \<open>\<open>calculate_bollinger_bands\<close>\<close>

definition calculate_bollinger_bands ::
    "talib \<Rightarrow> candle list \<Rightarrow> nat \<Rightarrow> real \<Rightarrow> (cell list \<times> cell list \<times> cell list) option" where
  "calculate_bollinger_bands ta data period std_dev =
     (if length data < period then None
      else (case BBANDS ta (map close data) period std_dev std_dev of
              None \<Rightarrow> None
            | Some (upper, middle, lower) \<Rightarrow>
                (case (series data upper, series data middle, series data lower) of
                   (Some u, Some m, Some l) \<Rightarrow> Some (u, m, l)
                 | _ \<Rightarrow> None)))"

text \<open>The decimal numeral of \<open>f'sma_{period}'\<close>.\<close>

fun decimal :: "nat \<Rightarrow> string" where
  "decimal n =
     (let d = ''0123456789'' ! (n mod 10)
      in if n div 10 = 0 then [d] else decimal (n div 10) @ [d])"

declare decimal.simps [simp del]

text \<open>
  \<open>calculate_moving_averages\<close>: a period longer than the data is skipped; an exception
  anywhere gives the empty dictionary.
\<close>

fun moving_averages_loop ::
    "talib \<Rightarrow> candle list \<Rightarrow> nat list \<Rightarrow> (string \<rightharpoonup> cell list)
     \<Rightarrow> (string \<rightharpoonup> cell list) option" where
  "moving_averages_loop ta data [] result = Some result"
| "moving_averages_loop ta data (period # periods) result =
     (if length data < period then moving_averages_loop ta data periods result
      else (case SMA ta (map close data) period of
              None \<Rightarrow> None
            | Some sma \<Rightarrow>
                (case series data sma of
                   None \<Rightarrow> None
                 | Some s \<Rightarrow>
                     moving_averages_loop ta data periods
                       (result(''sma_'' @ decimal period \<mapsto> s)))))"

definition calculate_moving_averages ::
    "talib \<Rightarrow> candle list \<Rightarrow> nat list \<Rightarrow> (string \<rightharpoonup> cell list)" where
  "calculate_moving_averages ta data periods =
     (case moving_averages_loop ta data periods Map.empty of
        None \<Rightarrow> Map.empty
      | Some result \<Rightarrow> result)"

text \<open>
  \<open>calculate_volume_ratio\<close>: \<open>rolling(window=period).mean()\<close> is \<open>NaN\<close> until a
  full window is available, then the mean of the last \<open>period\<close> volumes.
\<close>

definition window :: "real list \<Rightarrow> nat \<Rightarrow> nat \<Rightarrow> real list" where
  "window xs period i = take period (drop (i + 1 - period) xs)"

definition rolling_mean :: "real list \<Rightarrow> nat \<Rightarrow> cell list" where
  "rolling_mean xs period =
     map (\<lambda>i. if i + 1 < period then NaN else Num (mean (window xs period i))) [0..<length xs]"

definition calculate_volume_ratio :: "candle list \<Rightarrow> nat \<Rightarrow> cell list option" where
  "calculate_volume_ratio data period =
     (if length data < period then None
      else Some (map (\<lambda>(v, avg). cell_div (Num v) avg)
                   (zip (map volume data) (rolling_mean (map volume data) period))))"

text \<open>\<open>calculate_price_ratios\<close>: the pair (\<open>hl_ratio\<close>, \<open>co_ratio\<close>).\<close>

definition calculate_price_ratios :: "candle list \<Rightarrow> (cell list \<times> cell list) option" where
  "calculate_price_ratios data =
     Some (map (\<lambda>c. cell_div (Num (high c - low c)) (Num (close c))) data,
           map (\<lambda>c. cell_div (Num (close c - open' c)) (Num (open' c))) data)"

text \<open>A table from its index and its columns, and \<open>DataFrame.dropna()\<close>.\<close>

definition make_frame :: "nat list \<Rightarrow> (string \<times> cell list) list \<Rightarrow> DataFrame" where
  "make_frame idx cols =
     \<lparr>columns = map fst cols,
      records = map (\<lambda>i. (idx ! i, map (\<lambda>(name, c). c ! i) cols)) [0..<length idx]\<rparr>"

definition dropna :: "DataFrame \<Rightarrow> DataFrame" where
  "dropna df = df\<lparr>records := dropna_rows (records df)\<rparr>"

text \<open>
  The Bollinger band position, row by row:
  \<^verbatim>\<open>(data['close'] - bb_data['lower']) / (bb_data['upper'] - bb_data['lower'])\<close>.
\<close>

definition bb_position_col :: "candle list \<Rightarrow> cell list \<Rightarrow> cell list \<Rightarrow> cell list" where
  "bb_position_col data upper lower =
     map (\<lambda>(c, u, l). cell_div (cell_sub (Num (close c)) l) (cell_sub u l))
       (zip data (zip upper lower))"

text \<open>
  \<open>extract_all_features\<close> up to the last step: the copy of the input followed by the
  column of every indicator whose helper returned a value, in the order of assignment.
\<close>

definition all_feature_columns :: "talib \<Rightarrow> candle list \<Rightarrow> (string \<times> cell list) list" where
  "all_feature_columns ta data =
     [(''open'', map (\<lambda>c. Num (open' c)) data),
      (''high'', map (\<lambda>c. Num (high c)) data),
      (''low'', map (\<lambda>c. Num (low c)) data),
      (''close'', map (\<lambda>c. Num (close c)) data),
      (''volume'', map (\<lambda>c. Num (volume c)) data)]
     @ (case calculate_moving_averages ta data [20] ''sma_20'' of
          None \<Rightarrow> []
        | Some sma_20 \<Rightarrow> [(''sma_20'', sma_20)])
     @ (case calculate_moving_averages ta data [50] ''sma_50'' of
          None \<Rightarrow> []
        | Some sma_50 \<Rightarrow> [(''sma_50'', sma_50)])
     @ (case calculate_rsi ta data 14 of
          None \<Rightarrow> []
        | Some rsi \<Rightarrow> [(''rsi'', rsi)])
     @ (case calculate_macd ta data 12 26 9 of
          None \<Rightarrow> []
        | Some (macd, signal_line, histogram) \<Rightarrow>
            [(''macd'', macd), (''macd_signal'', signal_line), (''macd_hist'', histogram)])
     @ (case calculate_bollinger_bands ta data 20 2 of
          None \<Rightarrow> []
        | Some (upper, middle, lower) \<Rightarrow>
            [(''bb_upper'', upper), (''bb_middle'', middle), (''bb_lower'', lower),
             (''bb_position'', bb_position_col data upper lower)])
     @ (case calculate_volume_ratio data 20 of
          None \<Rightarrow> []
        | Some volume_ratio \<Rightarrow> [(''volume_ratio'', volume_ratio)])
     @ (case calculate_price_ratios data of
          None \<Rightarrow> []
        | Some (hl_ratio, co_ratio) \<Rightarrow> [(''hl_ratio'', hl_ratio), (''co_ratio'', co_ratio)])"

text \<open>The table \<open>features_df\<close> before its last step, and \<open>row[name]\<close> on its rows.\<close>

definition features_df :: "talib \<Rightarrow> candle list \<Rightarrow> DataFrame" where
  "features_df ta data = make_frame (map time data) (all_feature_columns ta data)"


text \<open>
  \<open>TechnicalAnalyzer.extract_all_features\<close>. Every helper catches its own exceptions
  and the remaining steps cannot raise on a candle table, so the method returns a table.
\<close>

definition extract_all_features :: "talib \<Rightarrow> candle list \<Rightarrow> DataFrame" where
  "extract_all_features ta data = dropna (features_df ta data)"

text \<open>
  The Bollinger bands by their definition: the moving average of the last \<open>period\<close>
  closes, plus and minus the given multiples of their population standard deviation.
\<close>

definition BBANDS_bands ::
    "real list \<Rightarrow> nat \<Rightarrow> real \<Rightarrow> real \<Rightarrow> (cell list \<times> cell list \<times> cell list) option" where
  "BBANDS_bands xs period nbdevup nbdevdn =
     Some (map (\<lambda>i. if i + 1 < period then NaN
                    else Num (mean (window xs period i)
                              + nbdevup * sqrt (variance (window xs period i))))
             [0..<length xs],
           map (\<lambda>i. if i + 1 < period then NaN else Num (mean (window xs period i)))
             [0..<length xs],
           map (\<lambda>i. if i + 1 < period then NaN
                    else Num (mean (window xs period i)
                              - nbdevdn * sqrt (variance (window xs period i))))
             [0..<length xs])"

section \<open>Specification-level notions and example data\<close>

text \<open>The instruments of a batch result whose alert flag is set.\<close>

definition alerted :: "prediction list \<Rightarrow> string list" where
  "alerted ps = map instrument (filter alert_triggered ps)"

text \<open>
  A classifier over the two classes: whenever \<open>predict_proba\<close> exists and returns,
  it returns two non-negative probabilities that sum to 1.
\<close>

definition binary_proba :: "classifier \<Rightarrow> bool" where
  "binary_proba m =
     (case predict_proba m of
        None \<Rightarrow> True
      | Some pp \<Rightarrow>
          (\<forall>x ps. pp x = Some ps \<longrightarrow>
             length ps = 2 \<and> (\<forall>p \<in> set ps. 0 \<le> p) \<and> sum_list ps = 1))"

text \<open>
  Example data: a classifier that predicts class 1 when the first scaled feature is
  positive and reports probability \<open>p\<close> for the class it predicts; a store with two
  artifacts trained on the same feature; a feature table of two rows.
\<close>

definition threshold_classifier :: "real \<Rightarrow> classifier" where
  "threshold_classifier p =
     \<lparr>predict = (\<lambda>x. case x of Num v # _ \<Rightarrow> Some (if v > 0 then 1 else 0) | _ \<Rightarrow> None),
      predict_proba =
        Some (\<lambda>x. case x of
                Num v # _ \<Rightarrow> Some (if v > 0 then [1 - p, p] else [p, 1 - p])
              | _ \<Rightarrow> None)\<rparr>"

definition example_store :: artifact_store where
  "example_store =
     \<lparr>model_pkl = [''nifty50_model'' \<mapsto> threshold_classifier (9/10),
                   ''banknifty_model'' \<mapsto> threshold_classifier (7/10)],
      scaler_pkl = [''nifty50_model'' \<mapsto> Fitted (Some [''rsi'']) [40] [10],
                    ''banknifty_model'' \<mapsto> Fitted (Some [''rsi'']) [60] [5]],
      features_txt = [''nifty50_model'' \<mapsto> ''rsi'', ''banknifty_model'' \<mapsto> ''rsi'']\<rparr>"

definition example_table :: DataFrame where
  "example_table =
     \<lparr>columns = [''close'', ''rsi''],
      records = [(0, [Num 100, Num 45]), (1, [Num 101, Num 50])]\<rparr>"

text \<open>The engine after the first and after the second \<open>load_model\<close> call of the agent.\<close>

definition engine_one :: PredictionEngine where
  "engine_one = snd (load_model example_store ''NIFTY50'' ''nifty50_model'' new_engine)"

definition engine_two :: PredictionEngine where
  "engine_two = snd (load_model example_store ''BANKNIFTY'' ''banknifty_model'' engine_one)"

text \<open>
  An artifact whose scaler holds no feature names and whose feature file lists
  \<open>rsi\<close> and \<open>macd\<close>; a table with two other feature columns and a table with the
  listed columns and one more.
\<close>

definition unnamed_store :: artifact_store where
  "unnamed_store =
     \<lparr>model_pkl = [''nifty50_model'' \<mapsto> threshold_classifier (9/10)],
      scaler_pkl = [''nifty50_model'' \<mapsto> Fitted None [40, 0] [10, 1]],
      features_txt = [''nifty50_model'' \<mapsto> ''rsi\<newline>macd'']\<rparr>"

definition other_table :: DataFrame where
  "other_table =
     \<lparr>columns = [''close'', ''sma_20'', ''sma_50''],
      records = [(0, [Num 100, Num 45, Num 3]), (1, [Num 101, Num 50, Num 4])]\<rparr>"

definition wider_table :: DataFrame where
  "wider_table =
     \<lparr>columns = [''close'', ''rsi'', ''macd'', ''hl_ratio''],
      records = [(0, [Num 100, Num 45, Num 3, Num 1]), (1, [Num 101, Num 50, Num 4, Num 1])]\<rparr>"

definition engine_unnamed :: PredictionEngine where
  "engine_unnamed = snd (load_model unnamed_store ''NIFTY50'' ''nifty50_model'' new_engine)"

text \<open>A table of four rows, one of them with a missing feature value.\<close>

definition closes_table :: DataFrame where
  "closes_table =
     \<lparr>columns = [''close'', ''rsi''],
      records = [(0, [Num 100, Num 45]), (1, [Num 101, Num 50]), (2, [Num 101, NaN]),
                 (3, [Num 99, Num 40])]\<rparr>"

text \<open>
  A table of eight rows of which two have a missing feature value, so that the labels
  outnumber the feature rows.
\<close>

definition gappy_table :: DataFrame where
  "gappy_table =
     \<lparr>columns = [''close'', ''rsi''],
      records = [(0, [Num 100, Num 1]), (1, [Num 101, NaN]), (2, [Num 100, Num 5]),
                 (3, [Num 102, Num 1]), (4, [Num 101, NaN]), (5, [Num 103, Num 5]),
                 (6, [Num 102, Num 1]), (7, [Num 104, Num 5])]\<rparr>"

text \<open>
  A table of seven rows with three rising and three falling closes, the replacement of
  one cell of a table, and a split that holds out the last two samples.
\<close>

definition leak_table :: DataFrame where
  "leak_table =
     \<lparr>columns = [''close'', ''rsi''],
      records = [(0, [Num 100, Num 1]), (1, [Num 101, Num 5]), (2, [Num 100, Num 1]),
                 (3, [Num 102, Num 5]), (4, [Num 101, Num 1]), (5, [Num 103, Num 5]),
                 (6, [Num 102, Num 3])]\<rparr>"

definition set_cell :: "DataFrame \<Rightarrow> nat \<Rightarrow> nat \<Rightarrow> cell \<Rightarrow> DataFrame" where
  "set_cell df i j v =
     df\<lparr>records := (records df)[i := (fst (records df ! i), (snd (records df ! i))[j := v])]\<rparr>"

definition holdout_split :: splitter where
  "holdout_split y = Some ([0..<length y - 2], [length y - 2, length y - 1])"

text \<open>
  Three candles, and an instance of the indicator library for the examples: the moving
  average and the bands by their definitions, while RSI and MACD raise, so that their
  columns are left out.
\<close>

definition three_candles :: "candle list" where
  "three_candles =
     [\<lparr>time = 0, open' = 100, high = 110, low = 90, close = 100, volume = 1000\<rparr>,
      \<lparr>time = 1, open' = 100, high = 125, low = 100, close = 125, volume = 1200\<rparr>,
      \<lparr>time = 2, open' = 125, high = 125, low = 100, close = 100, volume = 900\<rparr>]"

definition bands_only_talib :: talib where
  "bands_only_talib =
     \<lparr>SMA = (\<lambda>xs period. Some (rolling_mean xs period)),
      RSI = (\<lambda>xs period. None),
      MACD = (\<lambda>xs fast slow sig. None),
      BBANDS = BBANDS_bands\<rparr>"











section \<open>Properties\<close>

subsection \<open>Prediction: thresholds, batches, confidence\<close>

lemmas example_defs =
  predict_next_day_def load_model_def new_engine_def new_trainer_def example_store_def
  example_table_def trainer_load_model_def strip_def isspace_def feature_cols_of_def
  exclude_cols_def select_features_def threshold_classifier_def confidence_of_def
  engine_one_def engine_two_def

lemma pnd_threshold:
  "predict_next_day e d i t = Some r \<Longrightarrow>
   predict_next_day e d i t' = Some (r\<lparr>alert_triggered := (confidence r \<ge> t')\<rparr>)"
  by (auto simp: predict_next_day_def Let_def split: option.splits if_splits)

lemma pnd_alert:
  "predict_next_day e d i t = Some r \<Longrightarrow> alert_triggered r = (confidence r \<ge> t)"
  by (auto simp: predict_next_day_def Let_def split: option.splits if_splits)

lemma pnd_instrument:
  "predict_next_day e d i t = Some r \<Longrightarrow> instrument r = i"
  by (auto simp: predict_next_day_def Let_def split: option.splits if_splits)

lemma pnd_None_threshold:
  "predict_next_day e d i t = None \<Longrightarrow> predict_next_day e d i t' = None"
  by (auto simp: predict_next_day_def Let_def split: option.splits if_splits)

lemma predict_batch_loop_acc:
  "predict_batch_loop e thr dd acc =
   acc @ List.map_filter (\<lambda>(inst, data). predict_next_day e data inst thr) dd"
  by (induction dd arbitrary: acc) (auto simp: List.map_filter_simps split: option.splits)

text \<open>
  Claim C9. \<open>predict_batch\<close> returns exactly the successful results of
  \<open>predict_next_day\<close>, in the order of the dictionary: an instrument whose prediction
  fails contributes nothing and does not stop the loop, and an instrument with no bound
  artifact is such a failure.
\<close>

theorem predict_batch_collects_successes:
  "predict_batch e data_dict thr =
     List.map_filter (\<lambda>(inst, data). predict_next_day e data inst thr) data_dict
   \<and> (models e inst = None \<longrightarrow> predict_next_day e data inst thr = None)"
  by (simp add: predict_batch_def predict_batch_loop_acc predict_next_day_def)

text \<open>
  A batch of two instruments on an engine that has an artifact for the second only: the
  result is the one prediction for the second instrument.
\<close>

theorem predict_batch_collects_successes_witness:
  "models engine_one ''BANKNIFTY'' = None
   \<and> predict_batch engine_one
        [(''BANKNIFTY'', example_table), (''NIFTY50'', example_table)] (3/5) =
      [\<lparr>instrument = ''NIFTY50'', signal = BULL, prediction = 1, confidence = 9/10,
        alert_triggered = True, timestamp = 1, features_used = [''rsi'']\<rparr>]"
  using predict_batch_collects_successes
    [of engine_one "[(''BANKNIFTY'', example_table), (''NIFTY50'', example_table)]" "3/5"
        "''BANKNIFTY''" example_table]
  by (simp add: example_defs List.map_filter_simps)

lemma in_set_map_filter:
  "y \<in> set (List.map_filter f xs) \<longleftrightarrow> (\<exists>x \<in> set xs. f x = Some y)"
  by (induction xs) (auto simp: List.map_filter_simps split: option.splits)

lemma alerted_batch:
  "alerted (predict_batch e dd t) =
   List.map_filter (\<lambda>(inst, data). case predict_next_day e data inst t of
        None \<Rightarrow> None | Some r \<Rightarrow> if alert_triggered r then Some inst else None) dd"
  unfolding predict_batch_def predict_batch_loop_acc alerted_def
  by (induction dd) (auto simp: List.map_filter_simps pnd_instrument split: option.splits)

lemma alerted_mono:
  assumes "t1 \<le> t2"
  shows "set (alerted (predict_batch e dd t2)) \<subseteq> set (alerted (predict_batch e dd t1))"
proof
  fix i assume "i \<in> set (alerted (predict_batch e dd t2))"
  then obtain d r where d: "(i, d) \<in> set dd" and r: "predict_next_day e d i t2 = Some r"
      and a: "alert_triggered r"
    by (auto simp: alerted_batch in_set_map_filter split: option.splits if_splits)
  from r a have c: "confidence r \<ge> t2" using pnd_alert by blast
  from pnd_threshold[OF r, of t1] c assms
  have "predict_next_day e d i t1 = Some (r\<lparr>alert_triggered := True\<rparr>)" by simp
  with d show "i \<in> set (alerted (predict_batch e dd t1))"
    by (force simp: alerted_batch in_set_map_filter)
qed

text \<open>
  Claim C8. For a fixed engine, table and instrument, a prediction that triggers an alert
  at threshold \<open>t2\<close> is returned, alert included, at every threshold \<open>t1 \<le> t2\<close>;
  and the instruments alerted in a batch at \<open>t2\<close> are among those alerted at \<open>t1\<close>.
\<close>

theorem alert_monotone:
  assumes "t1 \<le> t2"
  shows "(predict_next_day e data inst t2 = Some r2 \<and> alert_triggered r2 \<longrightarrow>
            predict_next_day e data inst t1 = Some r2)
         \<and> set (alerted (predict_batch e data_dict t2))
             \<subseteq> set (alerted (predict_batch e data_dict t1))"
proof (intro conjI impI)
  assume h: "predict_next_day e data inst t2 = Some r2 \<and> alert_triggered r2"
  then have c: "confidence r2 \<ge> t2" using pnd_alert by blast
  from h pnd_threshold[of e data inst t2 r2 t1] c assms
  have "predict_next_day e data inst t1 = Some (r2\<lparr>alert_triggered := True\<rparr>)" by simp
  with h show "predict_next_day e data inst t1 = Some r2" by simp
next
  show "set (alerted (predict_batch e data_dict t2)) \<subseteq> set (alerted (predict_batch e data_dict t1))"
    by (rule alerted_mono[OF assms])
qed

text \<open>
  Thresholds 0.6 and 0.8 on a prediction of confidence 0.9.
\<close>

theorem alert_monotone_witness:
  "(3/5::real) \<le> 4/5
   \<and> predict_next_day engine_one example_table ''NIFTY50'' (4/5) =
       Some \<lparr>instrument = ''NIFTY50'', signal = BULL, prediction = 1, confidence = 9/10,
             alert_triggered = True, timestamp = 1, features_used = [''rsi'']\<rparr>
   \<and> predict_next_day engine_one example_table ''NIFTY50'' (3/5) =
       Some \<lparr>instrument = ''NIFTY50'', signal = BULL, prediction = 1, confidence = 9/10,
             alert_triggered = True, timestamp = 1, features_used = [''rsi'']\<rparr>
   \<and> set (alerted (predict_batch engine_one [(''NIFTY50'', example_table)] (4/5)))
       \<subseteq> set (alerted (predict_batch engine_one [(''NIFTY50'', example_table)] (3/5)))"
  using alert_monotone [of "3/5" "4/5" engine_one example_table "''NIFTY50''"
      "\<lparr>instrument = ''NIFTY50'', signal = BULL, prediction = 1, confidence = 9/10,
        alert_triggered = True, timestamp = 1, features_used = [''rsi'']\<rparr>"
      "[(''NIFTY50'', example_table)]"]
  by (simp add: example_defs)

lemma confidence_of_half:
  assumes "binary_proba m" "confidence_of m x = Some c"
  shows "c \<ge> 1/2"
proof (cases "predict_proba m")
  case None
  with assms show ?thesis by (simp add: confidence_of_def)
next
  case (Some pp)
  with assms(2) obtain ps where ps: "pp x = Some ps" "ps \<noteq> []" "c = Max (set ps)"
    by (auto simp: confidence_of_def split: option.splits if_splits)
  with assms(1) Some have l: "length ps = 2" and nn: "\<forall>p \<in> set ps. 0 \<le> p"
      and s: "sum_list ps = 1"
    unfolding binary_proba_def by auto
  from l obtain p0 p1 where "ps = [p0, p1]"
    by (cases ps; cases "tl ps") auto
  with ps nn s show ?thesis by (auto simp: max_def)
qed

lemma pnd_confidence:
  assumes "predict_next_day e data inst thr = Some r" "models e inst = Some a"
    "objects e a = Some tr" "model tr = Some m"
  shows "\<exists>x. confidence_of m x = Some (confidence r)"
  using assms
  by (auto simp: predict_next_day_def Let_def split: option.splits if_splits)

text \<open>
  Claim C10. When \<open>predict_next_day\<close> returns a result and the bound classifier is a
  classifier over two classes (or has no \<open>predict_proba\<close>), the confidence is at least
  0.5, so every threshold up to 0.5 triggers the alert.
\<close>

theorem confidence_at_least_half:
  assumes "predict_next_day e data inst thr = Some r" "models e inst = Some a"
    "objects e a = Some tr" "model tr = Some m" "binary_proba m"
  shows "confidence r \<ge> 1/2 \<and> (thr \<le> 1/2 \<longrightarrow> alert_triggered r)"
proof -
  from pnd_confidence[OF assms(1-4)] obtain x where "confidence_of m x = Some (confidence r)" ..
  with assms(5) have c: "confidence r \<ge> 1/2" by (rule confidence_of_half)
  moreover have "alert_triggered r = (confidence r \<ge> thr)" using assms(1) by (rule pnd_alert)
  ultimately show ?thesis by auto
qed

text \<open>
  The example engine: confidence 0.9 at threshold 0.5.
\<close>

theorem confidence_at_least_half_witness:
  "predict_next_day engine_one example_table ''NIFTY50'' (1/2) =
       Some \<lparr>instrument = ''NIFTY50'', signal = BULL, prediction = 1, confidence = 9/10,
             alert_triggered = True, timestamp = 1, features_used = [''rsi'']\<rparr>
   \<and> models engine_one ''NIFTY50'' = Some 0
   \<and> objects engine_one 0 =
       Some \<lparr>model = Some (threshold_classifier (9/10)),
             scaler = Some (Fitted (Some [''rsi'']) [40] [10]),
             feature_columns = Some [''rsi'']\<rparr>
   \<and> binary_proba (threshold_classifier (9/10))
   \<and> (9/10::real) \<ge> 1/2"
proof -
  have p: "predict_next_day engine_one example_table ''NIFTY50'' (1/2) =
       Some \<lparr>instrument = ''NIFTY50'', signal = BULL, prediction = 1, confidence = 9/10,
             alert_triggered = True, timestamp = 1, features_used = [''rsi'']\<rparr>"
    by (simp add: example_defs)
  have m: "models engine_one ''NIFTY50'' = Some 0"
    by (simp add: engine_one_def load_model_def new_engine_def)
  have ob: "objects engine_one 0 =
       Some \<lparr>model = Some (threshold_classifier (9/10)),
             scaler = Some (Fitted (Some [''rsi'']) [40] [10]),
             feature_columns = Some [''rsi'']\<rparr>"
    by (simp add: engine_one_def load_model_def new_engine_def new_trainer_def
        trainer_load_model_def example_store_def strip_def isspace_def)
  have b: "binary_proba (threshold_classifier (9/10))"
    by (auto simp: binary_proba_def threshold_classifier_def split: list.splits cell.splits)
  from confidence_at_least_half [OF p m ob _ b] p m ob b show ?thesis by simp
qed

subsection \<open>Prediction: the shared trainer and the feature columns\<close>

lemmas more_defs = unnamed_store_def other_table_def wider_table_def engine_unnamed_def

text \<open>
  Claim C2. The engine of the agent after loading an artifact for NIFTY50 and then one for
  BANKNIFTY: both instruments refer to the engine's single trainer object, which now
  holds the second artifact. The prediction for NIFTY50, BULL with confidence 0.9 under
  its own artifact, is BEAR with confidence 0.7 after the second load.
\<close>

theorem load_model_overwrites_shared_trainer:
  "predict_next_day engine_one example_table ''NIFTY50'' (3/5) =
     Some \<lparr>instrument = ''NIFTY50'', signal = BULL, prediction = 1, confidence = 9/10,
           alert_triggered = True, timestamp = 1, features_used = [''rsi'']\<rparr>
   \<and> predict_next_day engine_two example_table ''NIFTY50'' (3/5) =
     Some \<lparr>instrument = ''NIFTY50'', signal = BEAR, prediction = 0, confidence = 7/10,
           alert_triggered = True, timestamp = 1, features_used = [''rsi'']\<rparr>
   \<and> models engine_two ''NIFTY50'' = models engine_two ''BANKNIFTY''
   \<and> objects engine_two 0 =
     Some \<lparr>model = Some (threshold_classifier (7/10)),
           scaler = Some (Fitted (Some [''rsi'']) [60] [5]),
           feature_columns = Some [''rsi'']\<rparr>"
  by (simp add: example_defs)

text \<open>
  In general every \<open>load_model\<close> binds its instrument to the engine's one trainer
  and leaves earlier instruments bound to it.
\<close>

lemma load_model_binds_shared_trainer:
  "load_model st inst filename e = (ok, e') \<Longrightarrow> objects e (trainer e) \<noteq> None \<Longrightarrow>
   models e' inst = Some (trainer e) \<and> trainer e' = trainer e
   \<and> (\<forall>i. models e i = Some (trainer e) \<longrightarrow> models e' i = Some (trainer e))"
  by (auto simp: load_model_def Let_def split: option.splits)

lemma pnd_features_used:
  "predict_next_day e data inst thr = Some r \<Longrightarrow> features_used r = feature_cols_of (columns data)"
  by (auto simp: predict_next_day_def Let_def split: option.splits if_splits)

lemma pnd_scaler_names:
  "predict_next_day e data inst thr = Some r \<Longrightarrow> models e inst = Some a \<Longrightarrow>
   objects e a = Some tr \<Longrightarrow> scaler tr = Some (Fitted (Some ns) ms ss) \<Longrightarrow>
   ns = feature_cols_of (columns data)"
  by (auto simp: predict_next_day_def Let_def split: option.splits if_splits)

text \<open>
  Claim C4, as the code has it. \<open>predict_next_day\<close> selects the caller's columns
  other than the five candle columns, in the caller's order. The feature list recorded
  with the artifact is never read: replacing it leaves every prediction unchanged, a
  result reports the caller's columns as the features used, and a scaler that recorded
  names accepted exactly those columns.
\<close>

theorem predict_uses_callers_columns:
  assumes "objects e a = Some tr"
  shows "predict_next_day (e\<lparr>objects := (objects e)(a \<mapsto> tr\<lparr>feature_columns := fc\<rparr>)\<rparr>)
             data inst thr
           = predict_next_day e data inst thr
         \<and> (\<forall>r. predict_next_day e data inst thr = Some r \<longrightarrow>
                features_used r = feature_cols_of (columns data))
         \<and> (\<forall>r ns ms ss. predict_next_day e data inst thr = Some r
                \<and> models e inst = Some a \<and> scaler tr = Some (Fitted (Some ns) ms ss) \<longrightarrow>
                ns = feature_cols_of (columns data))"
proof (intro conjI allI impI)
  show "predict_next_day (e\<lparr>objects := (objects e)(a \<mapsto> tr\<lparr>feature_columns := fc\<rparr>)\<rparr>)
             data inst thr = predict_next_day e data inst thr"
    using assms by (auto simp: predict_next_day_def Let_def split: option.splits)
next
  fix r assume "predict_next_day e data inst thr = Some r"
  then show "features_used r = feature_cols_of (columns data)" by (rule pnd_features_used)
next
  fix r ns ms ss
  assume "predict_next_day e data inst thr = Some r
                \<and> models e inst = Some a \<and> scaler tr = Some (Fitted (Some ns) ms ss)"
  with assms show "ns = feature_cols_of (columns data)" using pnd_scaler_names by blast
qed

text \<open>
  The example engine with its recorded feature list replaced by \<open>macd\<close>: the
  prediction from the \<open>rsi\<close> column is unchanged.
\<close>

theorem predict_uses_callers_columns_witness:
  "objects engine_one 0 =
       Some \<lparr>model = Some (threshold_classifier (9/10)),
             scaler = Some (Fitted (Some [''rsi'']) [40] [10]),
             feature_columns = Some [''rsi'']\<rparr>
   \<and> predict_next_day
        (engine_one\<lparr>objects := (objects engine_one)(0 \<mapsto>
             \<lparr>model = Some (threshold_classifier (9/10)),
              scaler = Some (Fitted (Some [''rsi'']) [40] [10]),
              feature_columns = Some [''macd'']\<rparr>)\<rparr>)
        example_table ''NIFTY50'' (3/5)
     = Some \<lparr>instrument = ''NIFTY50'', signal = BULL, prediction = 1, confidence = 9/10,
             alert_triggered = True, timestamp = 1, features_used = [''rsi'']\<rparr>
   \<and> feature_cols_of (columns example_table) = [''rsi'']"
proof -
  have ob: "objects engine_one 0 =
       Some \<lparr>model = Some (threshold_classifier (9/10)),
             scaler = Some (Fitted (Some [''rsi'']) [40] [10]),
             feature_columns = Some [''rsi'']\<rparr>"
    by (simp add: engine_one_def load_model_def new_engine_def new_trainer_def
        trainer_load_model_def example_store_def strip_def isspace_def)
  have p: "predict_next_day engine_one example_table ''NIFTY50'' (3/5) =
       Some \<lparr>instrument = ''NIFTY50'', signal = BULL, prediction = 1, confidence = 9/10,
             alert_triggered = True, timestamp = 1, features_used = [''rsi'']\<rparr>"
    by (simp add: example_defs)
  have f: "feature_cols_of (columns example_table) = [''rsi'']"
    by (simp add: feature_cols_of_def example_table_def exclude_cols_def)
  from predict_uses_callers_columns [OF ob, of "Some [''macd'']" example_table "''NIFTY50''" "3/5"]
    ob p f show ?thesis by simp
qed

text \<open>
  Claim C4 as stated fails. The artifact lists \<open>rsi\<close>, \<open>macd\<close>; on a table with
  the columns \<open>sma_20\<close>, \<open>sma_50\<close> the call succeeds and uses those two columns.
  On a table that holds \<open>rsi\<close>, \<open>macd\<close> and a third feature the scaler is given all
  three columns and the call fails, where a selection by the recorded list would have
  found its two columns.
\<close>

theorem schema_selection_counterexample:
  "objects engine_unnamed 0 =
       Some \<lparr>model = Some (threshold_classifier (9/10)),
             scaler = Some (Fitted None [40, 0] [10, 1]),
             feature_columns = Some [''rsi'', ''macd'']\<rparr>
   \<and> predict_next_day engine_unnamed other_table ''NIFTY50'' (3/5) =
       Some \<lparr>instrument = ''NIFTY50'', signal = BULL, prediction = 1, confidence = 9/10,
             alert_triggered = True, timestamp = 1, features_used = [''sma_20'', ''sma_50'']\<rparr>
   \<and> feature_cols_of (columns wider_table) = [''rsi'', ''macd'', ''hl_ratio'']
   \<and> predict_next_day engine_unnamed wider_table ''NIFTY50'' (3/5) = None"
  by (simp add: example_defs more_defs)

subsection \<open>Training: labels, alignment, scaler\<close>

lemma length_labels_of: "length (labels_of cs) = length cs - 1"
  by (induction cs rule: labels_of.induct) auto

lemma nth_labels_of:
  "i < length cs - 1 \<Longrightarrow> labels_of cs ! i = (if cell_gt (cs ! Suc i) (cs ! i) then 1 else 0)"
proof (induction cs arbitrary: i rule: labels_of.induct)
  case (1 a b rest)
  then show ?case by (cases i) auto
qed auto

lemma length_get_column:
  "get_column data name = Some c \<Longrightarrow> length c = length (records data)"
  by (auto simp: get_column_def split: option.splits)

text \<open>
  Claim C5. For a table of \<open>n \<ge> 1\<close> rows with a close column, \<open>create_labels\<close>
  returns \<open>n - 1\<close> labels, and label \<open>i\<close> is 1 exactly when close \<open>i + 1\<close> is greater
  than close \<open>i\<close>, and 0 otherwise.
\<close>

theorem create_labels_correct:
  assumes "get_column data ''close'' = Some cl" and "length (records data) = n" and "n \<ge> 1"
  shows "\<exists>labels. create_labels data = Some labels \<and> length labels = n - 1
           \<and> (\<forall>i < n - 1. (labels ! i = 1 \<longleftrightarrow> cell_gt (cl ! (i + 1)) (cl ! i))
                          \<and> (labels ! i = 0 \<longleftrightarrow> \<not> cell_gt (cl ! (i + 1)) (cl ! i)))"
proof (cases "n \<le> 1")
  case True
  with assms show ?thesis by (simp add: create_labels_def)
next
  case False
  from assms(1,2) have l: "length cl = n" by (simp add: length_get_column)
  from False assms have "create_labels data = Some (labels_of cl)"
    by (simp add: create_labels_def)
  with l show ?thesis by (simp add: length_labels_of nth_labels_of)
qed

text \<open>
  Four closes 100, 101, 101, 99 give the labels 1, 0, 0.
\<close>

theorem create_labels_correct_witness:
  "get_column closes_table ''close'' = Some [Num 100, Num 101, Num 101, Num 99]
   \<and> length (records closes_table) = 4 \<and> (4::nat) \<ge> 1
   \<and> create_labels closes_table = Some [1, 0, 0]"
proof -
  have g: "get_column closes_table ''close'' = Some [Num 100, Num 101, Num 101, Num 99]"
    by (simp add: get_column_def closes_table_def)
  have n: "length (records closes_table) = 4" by (simp add: closes_table_def)
  have c: "create_labels closes_table = Some [1, 0, 0]"
    by (simp add: create_labels_def get_column_def closes_table_def)
  from create_labels_correct [OF g n] g n c show ?thesis by simp
qed

lemma length_create_labels:
  "create_labels data = Some y \<Longrightarrow> length y = length (records data) - 1"
  by (auto simp: create_labels_def length_labels_of length_get_column split: if_splits option.splits)

lemma length_feature_rows: "length (feature_rows data) \<le> length (records data)"
  unfolding feature_rows_def dropna_rows_def
  by (rule le_trans [OF length_filter_le]) simp

lemma prepare_data_scaler:
  assumes "create_labels data = Some y" and "align (feature_rows data) y = (X1, y1)"
  shows "scaler (snd (prepare_data split data t)) =
           Some (case fit (feature_cols_of (columns data)) (map snd X1) of
                   None \<Rightarrow> Unfitted | Some sc \<Rightarrow> sc)"
  using assms by (auto simp: prepare_data_def Let_def split: option.splits prod.splits)

lemma c_leak: "create_labels leak_table = Some [1, 0, 1, 0, 1, 0]"
  by (simp add: create_labels_def get_column_def leak_table_def)

lemma a_leak: "align (feature_rows leak_table) [1, 0, 1, 0, 1, 0::nat] =
       ([(0, [Num 1]), (1, [Num 5]), (2, [Num 1]), (3, [Num 5]), (4, [Num 1]), (5, [Num 5])],
        [1, 0, 1, 0, 1, 0])"
    by (simp add: align_def feature_rows_def dropna_rows_def select_features_def
        exclude_cols_def leak_table_def)

lemma f_leak: "fit [''rsi''] [[Num 1], [Num 5], [Num 1], [Num 5], [Num 1], [Num 5]]
   = Some (Fitted (Some [''rsi'']) [3] [2])"
  by (simp add: fit_def mean_def variance_def scale_of_def)

lemma cols_leak: "feature_cols_of (columns leak_table) = [''rsi'']"
  by (simp add: feature_cols_of_def exclude_cols_def leak_table_def)

lemma t_leak: "those (map (\<lambda>(ts, r). transform (Fitted (Some [''rsi'']) [3] [2]) [''rsi''] r)
    [(0, [Num 1]), (1, [Num 5]), (2, [Num 1]), (3, [Num 5]), (4, [Num 1]), (5, [Num 5])])
   = Some [[Num (-1)], [Num 1], [Num (-1)], [Num 1], [Num (-1)], [Num 1]]"
  by simp

lemma p_leak: "prepare_data holdout_split leak_table new_trainer =
   (Some \<lparr>X_train = [[Num (-1)], [Num 1], [Num (-1)], [Num 1]],
          X_test = [[Num (-1)], [Num 1]],
          y_train = [1, 0, 1, 0], y_test = [1, 0]\<rparr>,
    \<lparr>model = None, scaler = Some (Fitted (Some [''rsi'']) [3] [2]),
     feature_columns = Some [''rsi'']\<rparr>)"
  unfolding prepare_data_def Let_def cols_leak c_leak option.case a_leak prod.case
  by (simp add: f_leak holdout_split_def new_trainer_def)

lemma those_length: "those xs = Some ys \<Longrightarrow> length ys = length xs"
  by (induction xs arbitrary: ys) (auto split: option.splits)

lemma feature_rows_le_labels:
  "create_labels data = Some y \<Longrightarrow> length (feature_rows data) \<le> length y + 1"
  using length_feature_rows [of data] length_create_labels [of data y] by simp

lemma align_take:
  assumes "length X \<le> length y + 1"
  shows "align X y = (take (min (length X) (length y)) X, take (min (length X) (length y)) y)"
proof (cases "length X > length y")
  case True
  with assms have l: "length X = length y + 1" by simp
  then have "butlast X = take (length y) X" by (simp add: butlast_conv_take)
  with True l show ?thesis by (simp add: align_def Let_def min_def)
next
  case False
  then show ?thesis by (simp add: align_def Let_def min_def)
qed

text \<open>
  Claim C6. For every table on which \<open>create_labels\<close> returns, \<open>prepare_data\<close>
  cuts the feature rows and the labels to the smaller of the two counts \<open>m\<close> before
  anything else: the alignment keeps the first \<open>m\<close> of each, the scaler is fitted on
  those \<open>m\<close> feature rows, the split is called on those \<open>m\<close> labels, and the parts
  returned are taken from the \<open>m\<close> scaled rows and the \<open>m\<close> labels. (The feature
  rows exceed the labels by at most one, which is why dropping one row is enough.)
\<close>

theorem prepare_data_aligns_before_split:
  fixes data :: DataFrame and y :: "nat list"
  defines "m \<equiv> min (length (feature_rows data)) (length y)"
  defines "cols \<equiv> feature_cols_of (columns data)"
  assumes "create_labels data = Some y"
  shows "align (feature_rows data) y = (take m (feature_rows data), take m y)
       \<and> length (take m (feature_rows data)) = m \<and> length (take m y) = m
       \<and> scaler (snd (prepare_data split data t)) =
           Some (case fit cols (map snd (take m (feature_rows data))) of
                   None \<Rightarrow> Unfitted | Some sc \<Rightarrow> sc)
       \<and> (\<forall>p. fst (prepare_data split data t) = Some p \<longrightarrow>
             (\<exists>sc X_scaled train test.
                fit cols (map snd (take m (feature_rows data))) = Some sc
                \<and> those (map (\<lambda>(ts, r). transform sc cols r) (take m (feature_rows data)))
                    = Some X_scaled
                \<and> length X_scaled = m
                \<and> split (take m y) = Some (train, test)
                \<and> p = \<lparr>X_train = map (\<lambda>i. X_scaled ! i) train,
                        X_test = map (\<lambda>i. X_scaled ! i) test,
                        y_train = map (\<lambda>i. take m y ! i) train,
                        y_test = map (\<lambda>i. take m y ! i) test\<rparr>))"
proof -
  have al: "align (feature_rows data) y = (take m (feature_rows data), take m y)"
    unfolding m_def by (rule align_take [OF feature_rows_le_labels [OF assms(3)]])
  have len: "length (take m (feature_rows data)) = m" "length (take m y) = m"
    by (simp_all add: m_def)
  have sc: "scaler (snd (prepare_data split data t)) =
           Some (case fit cols (map snd (take m (feature_rows data))) of
                   None \<Rightarrow> Unfitted | Some sc \<Rightarrow> sc)"
    using prepare_data_scaler [OF assms(3) al] by (simp add: cols_def)
  have res: "\<exists>sc X_scaled train test.
                fit cols (map snd (take m (feature_rows data))) = Some sc
                \<and> those (map (\<lambda>(ts, r). transform sc cols r) (take m (feature_rows data)))
                    = Some X_scaled
                \<and> length X_scaled = m
                \<and> split (take m y) = Some (train, test)
                \<and> p = \<lparr>X_train = map (\<lambda>i. X_scaled ! i) train,
                        X_test = map (\<lambda>i. X_scaled ! i) test,
                        y_train = map (\<lambda>i. take m y ! i) train,
                        y_test = map (\<lambda>i. take m y ! i) test\<rparr>"
    if p: "fst (prepare_data split data t) = Some p" for p
  proof -
    from p obtain sc where f: "fit cols (map snd (take m (feature_rows data))) = Some sc"
      by (auto simp: prepare_data_def Let_def assms(3) al cols_def split: option.splits)
    from p f obtain X_scaled where
      x: "those (map (\<lambda>(ts, r). transform sc cols r) (take m (feature_rows data))) = Some X_scaled"
      by (auto simp: prepare_data_def Let_def assms(3) al cols_def split: option.splits)
    from p f x obtain train test where s: "split (take m y) = Some (train, test)"
      by (auto simp: prepare_data_def Let_def assms(3) al cols_def split: option.splits)
    from p f x s have "p = \<lparr>X_train = map (\<lambda>i. X_scaled ! i) train,
                        X_test = map (\<lambda>i. X_scaled ! i) test,
                        y_train = map (\<lambda>i. take m y ! i) train,
                        y_test = map (\<lambda>i. take m y ! i) test\<rparr>"
      by (auto simp: prepare_data_def Let_def assms(3) al cols_def)
    moreover from those_length [OF x] len have "length X_scaled = m" by simp
    ultimately show ?thesis using f x s by blast
  qed
  from al len sc res show ?thesis by blast
qed

lemma c_gappy: "create_labels gappy_table = Some [1, 0, 1, 0, 1, 0, 1]"
  by (simp add: create_labels_def get_column_def gappy_table_def)

lemma x_gappy: "feature_rows gappy_table =
    [(0, [Num 1]), (2, [Num 5]), (3, [Num 1]), (5, [Num 5]), (6, [Num 1]), (7, [Num 5])]"
  by (simp add: feature_rows_def dropna_rows_def select_features_def exclude_cols_def
      gappy_table_def)

lemma a_gappy: "align (feature_rows gappy_table) [1, 0, 1, 0, 1, 0, 1::nat] =
    ([(0, [Num 1]), (2, [Num 5]), (3, [Num 1]), (5, [Num 5]), (6, [Num 1]), (7, [Num 5])],
     [1, 0, 1, 0, 1, 0])"
  by (simp add: x_gappy align_def)

lemma cols_gappy: "feature_cols_of (columns gappy_table) = [''rsi'']"
  by (simp add: feature_cols_of_def exclude_cols_def gappy_table_def)

lemma p_gappy: "prepare_data holdout_split gappy_table new_trainer =
   (Some \<lparr>X_train = [[Num (-1)], [Num 1], [Num (-1)], [Num 1]],
          X_test = [[Num (-1)], [Num 1]],
          y_train = [1, 0, 1, 0], y_test = [1, 0]\<rparr>,
    \<lparr>model = None, scaler = Some (Fitted (Some [''rsi'']) [3] [2]),
     feature_columns = Some [''rsi'']\<rparr>)"
  unfolding prepare_data_def Let_def cols_gappy c_gappy option.case a_gappy prod.case
  by (simp add: f_leak holdout_split_def new_trainer_def)

lemma x_leak: "length (feature_rows leak_table) = 7"
  by (simp add: feature_rows_def dropna_rows_def select_features_def exclude_cols_def
      leak_table_def)

text \<open>
  A table with six feature rows and seven labels, where the labels are cut, and one with
  seven feature rows and six labels, where the last feature row is dropped.
\<close>

theorem prepare_data_aligns_before_split_witness:
  "create_labels gappy_table = Some [1, 0, 1, 0, 1, 0, 1]
   \<and> length (feature_rows gappy_table) = 6
   \<and> prepare_data holdout_split gappy_table new_trainer =
       (Some \<lparr>X_train = [[Num (-1)], [Num 1], [Num (-1)], [Num 1]],
              X_test = [[Num (-1)], [Num 1]],
              y_train = [1, 0, 1, 0], y_test = [1, 0]\<rparr>,
        \<lparr>model = None, scaler = Some (Fitted (Some [''rsi'']) [3] [2]),
         feature_columns = Some [''rsi'']\<rparr>)
   \<and> create_labels leak_table = Some [1, 0, 1, 0, 1, 0]
   \<and> length (feature_rows leak_table) = 7
   \<and> prepare_data holdout_split leak_table new_trainer =
       (Some \<lparr>X_train = [[Num (-1)], [Num 1], [Num (-1)], [Num 1]],
              X_test = [[Num (-1)], [Num 1]],
              y_train = [1, 0, 1, 0], y_test = [1, 0]\<rparr>,
        \<lparr>model = None, scaler = Some (Fitted (Some [''rsi'']) [3] [2]),
         feature_columns = Some [''rsi'']\<rparr>)"
  using prepare_data_aligns_before_split [OF c_gappy, of holdout_split new_trainer]
    prepare_data_aligns_before_split [OF c_leak, of holdout_split new_trainer]
    c_gappy x_gappy p_gappy c_leak x_leak p_leak
  by simp

text \<open>
  Claim C1, as the code has it. The scaler that \<open>prepare_data\<close> leaves in the trainer
  is fitted on all aligned feature rows, before the split: it does not depend on the
  split function or on the trainer's earlier state, and a second run on the same table
  gives the same scaler.
\<close>

theorem scaler_fitted_on_all_rows:
  assumes "create_labels data = Some y" and "align (feature_rows data) y = (X1, y1)"
  shows "scaler (snd (prepare_data split data t)) =
           Some (case fit (feature_cols_of (columns data)) (map snd X1) of
                   None \<Rightarrow> Unfitted | Some sc \<Rightarrow> sc)
         \<and> scaler (snd (prepare_data split' data t')) = scaler (snd (prepare_data split data t))
         \<and> scaler (snd (prepare_data split data (snd (prepare_data split data t))))
             = scaler (snd (prepare_data split data t))"
  using prepare_data_scaler [OF assms] by simp

text \<open>
  The seven-row table: mean 3 and scale 2 from the six aligned rows, four of which go
  to the training part.
\<close>

theorem scaler_fitted_on_all_rows_witness:
  "create_labels leak_table = Some [1, 0, 1, 0, 1, 0]
   \<and> align (feature_rows leak_table) [1, 0, 1, 0, 1, 0::nat] =
       ([(0, [Num 1]), (1, [Num 5]), (2, [Num 1]), (3, [Num 5]), (4, [Num 1]), (5, [Num 5])],
        [1, 0, 1, 0, 1, 0])
   \<and> prepare_data holdout_split leak_table new_trainer =
       (Some \<lparr>X_train = [[Num (-1)], [Num 1], [Num (-1)], [Num 1]],
              X_test = [[Num (-1)], [Num 1]],
              y_train = [1, 0, 1, 0], y_test = [1, 0]\<rparr>,
        \<lparr>model = None, scaler = Some (Fitted (Some [''rsi'']) [3] [2]),
         feature_columns = Some [''rsi'']\<rparr>)
   \<and> fit [''rsi''] [[Num 1], [Num 5], [Num 1], [Num 5], [Num 1], [Num 5]] =
       Some (Fitted (Some [''rsi'']) [3] [2])"
  using scaler_fitted_on_all_rows [OF c_leak a_leak, of holdout_split new_trainer]
    c_leak a_leak p_leak f_leak
  by simp

lemma base_leak:
  "scaler (snd (prepare_data split leak_table new_trainer)) = Some (Fitted (Some [''rsi'']) [3] [2])"
  using prepare_data_scaler [OF c_leak a_leak, of split new_trainer]
  by (simp add: f_leak cols_leak)

lemma perturbed_row:
  assumes "i \<in> {0, 1, 2, 3, 4, 5}"
  shows "create_labels (set_cell leak_table i 1 (Num 101)) = create_labels leak_table
       \<and> scaler (snd (prepare_data split (set_cell leak_table i 1 (Num 101)) new_trainer))
           \<noteq> Some (Fitted (Some [''rsi'']) [3] [2])"
proof -
  let ?d = "set_cell leak_table i 1 (Num 101)"
  have c: "create_labels ?d = Some [1, 0, 1, 0, 1, 0]"
    using assms by (auto simp: create_labels_def get_column_def leak_table_def set_cell_def)
  obtain X1 y1 where a: "align (feature_rows ?d) [1, 0, 1, 0, 1, 0::nat] = (X1, y1)"
    by (cases "align (feature_rows ?d) [1, 0, 1, 0, 1, 0::nat]") 
  have cols: "feature_cols_of (columns ?d) = [''rsi'']"
    by (simp add: set_cell_def leak_table_def feature_cols_of_def exclude_cols_def)
  have X1: "case fit [''rsi''] (map snd X1) of None \<Rightarrow> False | Some sc \<Rightarrow> mean_params sc \<noteq> [3]"
    using assms a
    by (auto simp: leak_table_def set_cell_def align_def feature_rows_def dropna_rows_def
        select_features_def exclude_cols_def fit_def mean_def)
  from prepare_data_scaler [OF c a, of split new_trainer] X1 cols c c_leak
  show ?thesis by (auto split: option.splits)
qed

text \<open>
  Claim C1 as stated fails. Whatever the split, replacing the feature value of any one
  of the six samples, hence of any sample of the test part, leaves the labels as they
  were and changes the fitted scaler.
\<close>

theorem scaler_leak_counterexample:
  "\<forall>split.
     list_all (\<lambda>i. create_labels (set_cell leak_table i 1 (Num 101)) = create_labels leak_table
                 \<and> scaler (snd (prepare_data split (set_cell leak_table i 1 (Num 101)) new_trainer))
                     \<noteq> scaler (snd (prepare_data split leak_table new_trainer)))
       [0, 1, 2, 3, 4, 5]"
  using perturbed_row by (simp add: base_leak)

subsection \<open>Feature extraction on short candle sequences\<close>

lemma sma_skip:
  "length data < p \<Longrightarrow> calculate_moving_averages ta data [p] name = None"
  by (simp add: calculate_moving_averages_def)

lemma cols_short:
  assumes "length data < 14"
  shows "all_feature_columns ta data =
     [(''open'', map (\<lambda>c. Num (open' c)) data),
      (''high'', map (\<lambda>c. Num (high c)) data),
      (''low'', map (\<lambda>c. Num (low c)) data),
      (''close'', map (\<lambda>c. Num (close c)) data),
      (''volume'', map (\<lambda>c. Num (volume c)) data),
      (''hl_ratio'', map (\<lambda>c. cell_div (Num (high c - low c)) (Num (close c))) data),
      (''co_ratio'', map (\<lambda>c. cell_div (Num (close c - open' c)) (Num (open' c))) data)]"
  using assms
  by (simp add: all_feature_columns_def sma_skip calculate_rsi_def calculate_macd_def
      calculate_bollinger_bands_def calculate_volume_ratio_def calculate_price_ratios_def)

lemma no_sma_50:
  assumes "length data < 50"
  shows "''sma_50'' \<notin> set (map fst (all_feature_columns ta data))"
  using assms
  by (auto simp: all_feature_columns_def sma_skip calculate_price_ratios_def
      split: option.splits)

lemma dropna_rows_all:
  "(\<And>x. x \<in> set rs \<Longrightarrow> NaN \<notin> set (snd x)) \<Longrightarrow> dropna_rows rs = rs"
  unfolding dropna_rows_def by (auto simp: filter_id_conv)

lemma short_rows:
  assumes "length data < 14" and "\<forall>c \<in> set data. open' c \<noteq> 0 \<and> close c \<noteq> 0"
  shows "map fst (records (extract_all_features ta data)) = map time data"
proof -
  let ?F = "features_df ta data"
  have "NaN \<notin> set (snd x)" if "x \<in> set (records ?F)" for x
  proof -
    from that obtain i where i: "i < length data" and x: "x = records ?F ! i"
      by (auto simp: in_set_conv_nth features_df_def make_frame_def)
    from i assms(2) have "open' (data ! i) \<noteq> 0" "close (data ! i) \<noteq> 0" by auto
    with i x show ?thesis
      by (simp add: features_df_def make_frame_def cols_short [OF assms(1)])
  qed
  then have "records (extract_all_features ta data) = records ?F"
    by (simp add: extract_all_features_def dropna_def dropna_rows_all)
  moreover have "map fst (records ?F) = map time data"
    using map_nth [of "map time data"]
    by (simp add: features_df_def make_frame_def comp_def)
  ultimately show ?thesis by simp
qed

text \<open>
  Claim C3, as the code has it. For fewer than 50 candles \<open>extract_all_features\<close>
  returns a table that has no \<open>sma_50\<close> field and no row with a \<open>NaN\<close>. The table
  need not be empty: an indicator whose window is longer than the sequence is left out
  of the schema. With fewer than 14 candles, all with non-zero open and close, the table
  has one row per candle and only the two price ratios as features.
\<close>

theorem short_sequence_features:
  assumes "length data < 50"
  shows "''sma_50'' \<notin> set (columns (extract_all_features ta data))
       \<and> (\<forall>(ts, r) \<in> set (records (extract_all_features ta data)). NaN \<notin> set r)
       \<and> (length data < 14 \<and> (\<forall>c \<in> set data. open' c \<noteq> 0 \<and> close c \<noteq> 0) \<longrightarrow>
            columns (extract_all_features ta data) =
              [''open'', ''high'', ''low'', ''close'', ''volume'', ''hl_ratio'', ''co_ratio'']
            \<and> map fst (records (extract_all_features ta data)) = map time data)"
proof -
  have a: "''sma_50'' \<notin> set (columns (extract_all_features ta data))"
    using no_sma_50 [OF assms]
    by (simp add: extract_all_features_def dropna_def features_df_def make_frame_def)
  have b: "\<forall>(ts, r) \<in> set (records (extract_all_features ta data)). NaN \<notin> set r"
    by (auto simp: extract_all_features_def dropna_def dropna_rows_def)
  have c: "columns (extract_all_features ta data) =
              [''open'', ''high'', ''low'', ''close'', ''volume'', ''hl_ratio'', ''co_ratio'']"
    if "length data < 14"
    using that
    by (simp add: extract_all_features_def dropna_def features_df_def make_frame_def cols_short)
  from a b c short_rows show ?thesis by blast
qed

lemma three_result:
  "extract_all_features ta three_candles =
     \<lparr>columns = [''open'', ''high'', ''low'', ''close'', ''volume'', ''hl_ratio'', ''co_ratio''],
      records = [(0, [Num 100, Num 110, Num 90, Num 100, Num 1000, Num (1/5), Num 0]),
                 (1, [Num 100, Num 125, Num 100, Num 125, Num 1200, Num (1/5), Num (1/4)]),
                 (2, [Num 125, Num 125, Num 100, Num 100, Num 900, Num (1/4), Num (-1/5)])]\<rparr>"
proof -
  have l: "length three_candles < 14" by (simp add: three_candles_def)
  show ?thesis
    unfolding extract_all_features_def features_df_def cols_short [OF l]
    by (simp add: three_candles_def make_frame_def dropna_def dropna_rows_def)
qed

text \<open>
  Three candles: all three are returned, with the two price ratios.
\<close>

theorem short_sequence_features_witness:
  "length three_candles < 50
   \<and> columns (extract_all_features bands_only_talib three_candles) =
       [''open'', ''high'', ''low'', ''close'', ''volume'', ''hl_ratio'', ''co_ratio'']
   \<and> map fst (records (extract_all_features bands_only_talib three_candles)) = [0, 1, 2]"
proof -
  have l: "length three_candles < 50" by (simp add: three_candles_def)
  from short_sequence_features [OF l, of bands_only_talib] l show ?thesis
    by (simp add: three_result)
qed

text \<open>
  Claim C3 as stated fails. Whatever the indicator library, three candles give a table
  of three rows, none of which has any of the indicator fields.
\<close>

theorem short_sequence_counterexample:
  "\<forall>ta. extract_all_features ta three_candles =
     \<lparr>columns = [''open'', ''high'', ''low'', ''close'', ''volume'', ''hl_ratio'', ''co_ratio''],
      records = [(0, [Num 100, Num 110, Num 90, Num 100, Num 1000, Num (1/5), Num 0]),
                 (1, [Num 100, Num 125, Num 100, Num 125, Num 1200, Num (1/5), Num (1/4)]),
                 (2, [Num 125, Num 125, Num 100, Num 100, Num 900, Num (1/4), Num (-1/5)])]\<rparr>"
  by (simp add: three_result)

subsection \<open>The Bollinger band position\<close>





















































































end
